theory Spec2Isabelle
  imports Complex_Main
begin

section \<open>Python values, dictionaries and exceptions\<close>

text \<open>
  The estimators of \<^verbatim>\<open>flaml/model.py\<close> keep their hyperparameters in a Python
  dictionary from names to scalars. A dictionary is a map from strings to values;
  Python's unbounded integers are \<^typ>\<open>int\<close>; Python floats are idealised as
  \<^typ>\<open>real\<close> (the rounding of floating-point arithmetic is not modelled). Every
  exception the modelled code can raise is a value of \<open>py_error\<close>, returned as
  \<open>Inl\<close>.
\<close>

datatype py_error =
  KeyError | AttributeError | ZeroDivisionError | ValueError | TypeError | IndexError

datatype pyval =
    PNone
  | PBool bool
  | PInt int
  | PFloat real
  | PStr string
  | PCallable nat

type_synonym pydict = "string \<rightharpoonup> pyval"

text \<open>\<^verbatim>\<open>d.get(k)\<close>: the value stored under \<open>k\<close>, or \<^verbatim>\<open>None\<close>.\<close>

definition py_get :: "pydict \<Rightarrow> string \<Rightarrow> pyval" where
  "py_get d k = (case d k of None \<Rightarrow> PNone | Some v \<Rightarrow> v)"

text \<open>\<^verbatim>\<open>d.get(k, default)\<close>.\<close>

definition py_get_default :: "pydict \<Rightarrow> string \<Rightarrow> pyval \<Rightarrow> pyval" where
  "py_get_default d k dflt = (case d k of None \<Rightarrow> dflt | Some v \<Rightarrow> v)"

text \<open>Running one fallible step after another: the first exception wins.\<close>

definition and_then :: "py_error + 'a \<Rightarrow> ('a \<Rightarrow> py_error + 'b) \<Rightarrow> py_error + 'b" where
  "and_then r f = (case r of Inl e \<Rightarrow> Inl e | Inr x \<Rightarrow> f x)"

text \<open>
  \<^verbatim>\<open>int(x)\<close> on a float truncates towards zero.
\<close>

definition py_int :: "real \<Rightarrow> int" where
  "py_int x = (if 0 \<le> x then \<lfloor>x\<rfloor> else \<lceil>x\<rceil>)"

text \<open>
  \<^verbatim>\<open>round(x)\<close> on a float rounds to the nearest integer, a tie going to the even
  neighbour.
\<close>

definition py_round :: "real \<Rightarrow> int" where
  "py_round x =
     (let f = \<lfloor>x\<rfloor>; d = x - of_int f
      in if d < 1 / 2 then f
         else if 1 / 2 < d then f + 1
         else if even f then f else f + 1)"

text \<open>
  \<^verbatim>\<open>1 << v\<close>: defined on integers (a \<^verbatim>\<open>bool\<close> is an integer in Python) with a
  non-negative shift count; a negative count raises \<^verbatim>\<open>ValueError\<close>, any other
  operand type \<^verbatim>\<open>TypeError\<close>.
\<close>

fun py_lshift_one :: "pyval \<Rightarrow> py_error + int" where
  "py_lshift_one (PInt v) = (if v < 0 then Inl ValueError else Inr (push_bit (nat v) 1))"
| "py_lshift_one (PBool b) = Inr (push_bit (if b then 1 else 0) 1)"
| "py_lshift_one PNone = Inl TypeError"
| "py_lshift_one (PFloat x) = Inl TypeError"
| "py_lshift_one (PStr s) = Inl TypeError"
| "py_lshift_one (PCallable f) = Inl TypeError"

section \<open>The Configuration Mapper: \<^verbatim>\<open>config2params\<close>\<close>

text \<open>
  \<^verbatim>\<open>BaseEstimator.config2params\<close> (lines 202-214): copy the configuration and
  drop the control key \<^verbatim>\<open>resources_per_trial\<close>.
\<close>

definition BaseEstimator_config2params :: "pydict \<Rightarrow> pydict" where
  "BaseEstimator_config2params config =
     (let params = config
      in if ''resources_per_trial'' \<in> dom params
         then params(''resources_per_trial'' := None)
         else params)"

text \<open>
  \<^verbatim>\<open>LGBMEstimator.config2params\<close> (lines 436-440):
  \<^verbatim>\<open>params["max_bin"] = (1 << params.pop("log_max_bin")) - 1\<close>. The right-hand
  side runs first: the key is popped, the shift is computed (and may raise), and only
  then is \<^verbatim>\<open>max_bin\<close> stored.
\<close>

definition LGBMEstimator_config2params :: "pydict \<Rightarrow> py_error + pydict" where
  "LGBMEstimator_config2params config =
     (let params = BaseEstimator_config2params config
      in case params ''log_max_bin'' of
           None \<Rightarrow> Inr params
         | Some v \<Rightarrow>
             (let popped = params(''log_max_bin'' := None)
              in case py_lshift_one v of
                   Inl e \<Rightarrow> Inl e
                 | Inr k \<Rightarrow> Inr (popped(''max_bin'' \<mapsto> PInt (k - 1)))))"

section \<open>Properties of the Configuration Mapper\<close>

lemma BaseEstimator_config2params_idem:
  "BaseEstimator_config2params (BaseEstimator_config2params config) =
   BaseEstimator_config2params config"
  by (auto simp: BaseEstimator_config2params_def Let_def)

lemma BaseEstimator_config2params_other:
  "k \<noteq> ''resources_per_trial'' \<Longrightarrow> BaseEstimator_config2params config k = config k"
  by (simp add: BaseEstimator_config2params_def Let_def)

lemma LGBMEstimator_config2params_no_log_max_bin:
  "LGBMEstimator_config2params config = Inr p \<Longrightarrow> p ''log_max_bin'' = None"
  by (auto simp: LGBMEstimator_config2params_def Let_def
           split: option.splits sum.splits)

lemma LGBMEstimator_config2params_no_resources:
  "LGBMEstimator_config2params config = Inr p \<Longrightarrow> p ''resources_per_trial'' = None"
  by (auto simp: LGBMEstimator_config2params_def BaseEstimator_config2params_def Let_def
           split: option.splits sum.splits if_splits)

lemma LGBMEstimator_config2params_fixpoint:
  assumes "LGBMEstimator_config2params config = Inr p"
  shows "LGBMEstimator_config2params p = Inr p"
proof -
  have a: "p ''log_max_bin'' = None"
    using assms by (rule LGBMEstimator_config2params_no_log_max_bin)
  have b: "p ''resources_per_trial'' = None"
    using assms by (rule LGBMEstimator_config2params_no_resources)
  have "BaseEstimator_config2params p = p"
    using b by (auto simp: BaseEstimator_config2params_def Let_def)
  then show ?thesis
    using a by (simp add: LGBMEstimator_config2params_def Let_def)
qed

text \<open>
  C7. The Configuration Mapper is idempotent: mapping the output of
  \<^verbatim>\<open>config2params\<close> again gives the same parameters as mapping once. For the base
  mapper this is an equation between dictionaries. The LightGBM mapper can raise (the
  shift of \<^verbatim>\<open>log_max_bin\<close>), so the second application is chained after the first:
  when the first raises, so does the chain, with the same exception; when it returns
  parameters, the second application returns them unchanged.
\<close>

theorem config2params_idempotent:
  "BaseEstimator_config2params (BaseEstimator_config2params config) =
     BaseEstimator_config2params config
   \<and> and_then (LGBMEstimator_config2params config) LGBMEstimator_config2params =
     LGBMEstimator_config2params config"
proof -
  have "and_then (LGBMEstimator_config2params config) LGBMEstimator_config2params =
        LGBMEstimator_config2params config"
  proof (cases "LGBMEstimator_config2params config")
    case (Inl e)
    then show ?thesis by (simp add: and_then_def)
  next
    case (Inr p)
    then show ?thesis
      by (simp add: and_then_def LGBMEstimator_config2params_fixpoint)
  qed
  then show ?thesis
    by (simp add: BaseEstimator_config2params_idem)
qed

lemma py_lshift_one_nonneg: "0 \<le> v \<Longrightarrow> py_lshift_one (PInt v) = Inr (2 ^ nat v)"
  by (simp add: push_bit_eq_mult)

lemma LGBMEstimator_config2params_negative_shift:
  "config ''log_max_bin'' = Some (PInt v) \<Longrightarrow> v < 0 \<Longrightarrow>
   LGBMEstimator_config2params config = Inl ValueError"
  by (simp add: LGBMEstimator_config2params_def BaseEstimator_config2params_other Let_def)

text \<open>
  C8. For every configuration that holds \<^verbatim>\<open>log_max_bin\<close> with an integer value
  \<open>v\<close> on which Python's shift \<^verbatim>\<open>1 << v\<close> is defined (\<open>0 \<le> v\<close>; a negative
  count raises \<^verbatim>\<open>ValueError\<close>, see the lemma above), the LightGBM mapper returns
  parameters without the key \<^verbatim>\<open>log_max_bin\<close> and with \<^verbatim>\<open>max_bin\<close> equal to
  \<^verbatim>\<open>(1 << v) - 1\<close>, that is \<open>2 ^ v - 1\<close>.
\<close>

theorem log_max_bin_expanded:
  assumes "config ''log_max_bin'' = Some (PInt v)" and "0 \<le> v"
  shows "\<exists>p. LGBMEstimator_config2params config = Inr p
             \<and> p ''log_max_bin'' = None
             \<and> p ''max_bin'' = Some (PInt (push_bit (nat v) 1 - 1))
             \<and> push_bit (nat v) (1::int) - 1 = 2 ^ nat v - 1"
  using assms
  by (simp add: LGBMEstimator_config2params_def BaseEstimator_config2params_other Let_def
                push_bit_eq_mult)

theorem log_max_bin_expanded_witness:
  "\<exists>p. LGBMEstimator_config2params [''log_max_bin'' \<mapsto> PInt 8, ''n_estimators'' \<mapsto> PInt 4] = Inr p
       \<and> p ''log_max_bin'' = None
       \<and> p ''max_bin'' = Some (PInt 255)"
  using log_max_bin_expanded [of "[''log_max_bin'' \<mapsto> PInt 8, ''n_estimators'' \<mapsto> PInt 4]" 8]
  by (simp add: push_bit_eq_mult)

section \<open>Search spaces\<close>

text \<open>
  A search space maps a hyperparameter name to its domain, its initial value and its
  low-cost initial value, the last two optional. The domains are the constructors of
  \<^verbatim>\<open>flaml.tune\<close> the tables use; CatBoost's \<^verbatim>\<open>n_estimators\<close> gives the plain
  number 8192 in the place of a domain. The dictionary literal is kept as the list of
  its entries, in the order of the source. \<^verbatim>\<open>data_size\<close> is the number of rows, an
  integer, on which \<^verbatim>\<open>int(data_size)\<close> is the identity.
\<close>

datatype tune_domain =
    lograndint int int
  | loguniform real real
  | uniform real real
  | plain_number int

record hp_entry =
  hp_domain :: tune_domain
  init_value :: "pyval option"
  low_cost_init_value :: "pyval option"

type_synonym search_space_t = "(string \<times> hp_entry) list"

text \<open>\<^verbatim>\<open>LGBMEstimator.search_space\<close> (lines 392-434).\<close>

definition LGBMEstimator_search_space :: "int \<Rightarrow> search_space_t" where
  "LGBMEstimator_search_space data_size =
     (let upper = min 32768 data_size
      in [(''n_estimators'',
             \<lparr>hp_domain = lograndint 4 upper, init_value = Some (PInt 4),
              low_cost_init_value = Some (PInt 4)\<rparr>),
          (''num_leaves'',
             \<lparr>hp_domain = lograndint 4 upper, init_value = Some (PInt 4),
              low_cost_init_value = Some (PInt 4)\<rparr>),
          (''min_child_samples'',
             \<lparr>hp_domain = lograndint 2 (2 ^ 7 + 1), init_value = Some (PInt 20),
              low_cost_init_value = None\<rparr>),
          (''learning_rate'',
             \<lparr>hp_domain = loguniform (1 / 1024) 1, init_value = Some (PFloat (1 / 10)),
              low_cost_init_value = None\<rparr>),
          (''log_max_bin'',
             \<lparr>hp_domain = lograndint 3 11, init_value = Some (PInt 8),
              low_cost_init_value = None\<rparr>),
          (''colsample_bytree'',
             \<lparr>hp_domain = uniform (1 / 100) 1, init_value = Some (PFloat 1),
              low_cost_init_value = None\<rparr>),
          (''reg_alpha'',
             \<lparr>hp_domain = loguniform (1 / 1024) 1024, init_value = Some (PFloat (1 / 1024)),
              low_cost_init_value = None\<rparr>),
          (''reg_lambda'',
             \<lparr>hp_domain = loguniform (1 / 1024) 1024, init_value = Some (PFloat 1),
              low_cost_init_value = None\<rparr>)])"

text \<open>
  \<^verbatim>\<open>CatBoostEstimator.search_space\<close> (lines 802-819):
  \<^verbatim>\<open>upper = max(min(round(1500000 / data_size), 150), 12)\<close>; the division raises
  for \<^verbatim>\<open>data_size = 0\<close>.
\<close>

definition CatBoostEstimator_search_space :: "int \<Rightarrow> py_error + search_space_t" where
  "CatBoostEstimator_search_space data_size =
     (if data_size = 0 then Inl ZeroDivisionError
      else
        (let upper = max (min (py_round (1500000 / of_int data_size)) 150) 12
         in Inr [(''early_stopping_rounds'',
                    \<lparr>hp_domain = lograndint 10 upper, init_value = Some (PInt 10),
                     low_cost_init_value = Some (PInt 10)\<rparr>),
                 (''learning_rate'',
                    \<lparr>hp_domain = loguniform (5 / 1000) (2 / 10),
                     init_value = Some (PFloat (1 / 10)), low_cost_init_value = None\<rparr>),
                 (''n_estimators'',
                    \<lparr>hp_domain = plain_number 8192, init_value = Some (PInt 8192),
                     low_cost_init_value = None\<rparr>)]))"

text \<open>
  The integer domains of a search space are its \<^verbatim>\<open>lograndint\<close> entries;
  \<open>int_upper_bounds\<close> lists each with its upper bound.
\<close>

fun int_upper :: "tune_domain \<Rightarrow> int option" where
  "int_upper (lograndint lower upper) = Some upper"
| "int_upper (loguniform lower upper) = None"
| "int_upper (uniform lower upper) = None"
| "int_upper (plain_number n) = None"

fun int_upper_bounds :: "search_space_t \<Rightarrow> (string \<times> int) list" where
  "int_upper_bounds [] = []"
| "int_upper_bounds ((name, e) # rest) =
     (case int_upper (hp_domain e) of
        None \<Rightarrow> int_upper_bounds rest
      | Some u \<Rightarrow> (name, u) # int_upper_bounds rest)"

section \<open>Properties of the search spaces\<close>

lemma LGBMEstimator_int_upper_bounds:
  "int_upper_bounds (LGBMEstimator_search_space data_size) =
     [(''n_estimators'', min 32768 data_size), (''num_leaves'', min 32768 data_size),
      (''min_child_samples'', 129), (''log_max_bin'', 11)]"
  by (simp add: LGBMEstimator_search_space_def Let_def)

lemma CatBoostEstimator_int_upper_bounds:
  "data_size \<noteq> 0 \<Longrightarrow>
   CatBoostEstimator_search_space data_size = Inr sp \<Longrightarrow>
   int_upper_bounds sp =
     [(''early_stopping_rounds'', max (min (py_round (1500000 / of_int data_size)) 150) 12)]"
  by (auto simp: CatBoostEstimator_search_space_def Let_def)

text \<open>
  C9, as stated: no integer domain of \<^verbatim>\<open>search_space(data_size, task)\<close> has an upper
  bound above \<^verbatim>\<open>data_size\<close>. It fails for 50 rows: LightGBM's
  \<^verbatim>\<open>min_child_samples\<close> keeps its fixed upper bound 129.
\<close>

theorem search_space_bound_counterexample:
  "(''min_child_samples'', 129) \<in> set (int_upper_bounds (LGBMEstimator_search_space 50))
   \<and> \<not> (129::int) \<le> 50"
  by (simp add: LGBMEstimator_int_upper_bounds)

text \<open>
  C9, amended. LightGBM's search space bounds the integer domains of
  \<^verbatim>\<open>n_estimators\<close> and \<^verbatim>\<open>num_leaves\<close> by \<open>min 32768 data_size\<close>, which never exceeds
  \<^verbatim>\<open>data_size\<close> nor the cap 32768; its other integer domains,
  \<^verbatim>\<open>min_child_samples\<close> and \<^verbatim>\<open>log_max_bin\<close>, have the fixed upper bounds 129 and 11
  whatever \<^verbatim>\<open>data_size\<close> is. For a non-zero \<^verbatim>\<open>data_size\<close> CatBoost's only integer
  domain, \<^verbatim>\<open>early_stopping_rounds\<close>, has the upper bound
  \<^verbatim>\<open>max(min(round(1500000 / data_size), 150), 12)\<close>, between 12 and 150 and not
  bounded by \<^verbatim>\<open>data_size\<close>.
\<close>

theorem search_space_bounds:
  "int_upper_bounds (LGBMEstimator_search_space data_size) =
     [(''n_estimators'', min 32768 data_size), (''num_leaves'', min 32768 data_size),
      (''min_child_samples'', 129), (''log_max_bin'', 11)]
   \<and> min 32768 data_size \<le> data_size
   \<and> min 32768 data_size \<le> 32768
   \<and> (data_size \<noteq> 0 \<longrightarrow>
        (\<exists>sp u. CatBoostEstimator_search_space data_size = Inr sp
               \<and> int_upper_bounds sp = [(''early_stopping_rounds'', u)]
               \<and> u = max (min (py_round (1500000 / of_int data_size)) 150) 12
               \<and> 12 \<le> u \<and> u \<le> 150))"
  by (simp add: LGBMEstimator_int_upper_bounds CatBoostEstimator_search_space_def Let_def)

lemma py_round_of_int: "py_round (of_int n) = n"
  by (simp add: py_round_def Let_def)

theorem search_space_bounds_witness:
  "int_upper_bounds (LGBMEstimator_search_space 50) =
     [(''n_estimators'', 50), (''num_leaves'', 50),
      (''min_child_samples'', 129), (''log_max_bin'', 11)]
   \<and> (\<exists>sp. CatBoostEstimator_search_space 50 = Inr sp
           \<and> int_upper_bounds sp = [(''early_stopping_rounds'', 150)])"
proof -
  have r: "py_round (1500000 / of_int 50) = 30000"
    using py_round_of_int [of 30000] by simp
  show ?thesis
    using search_space_bounds [of 50] r by simp
qed

section \<open>Prediction before any fit\<close>

text \<open>
  The argument of \<^verbatim>\<open>predict\<close> is a table with a shape (rows, columns), or, for the
  forecasting estimators, an integer number of periods. The trained model and the
  estimator's \<^verbatim>\<open>_preprocess\<close> are opaque: they are parameters of the model.
  \<^verbatim>\<open>np.ones(n)\<close> is the list of \<open>n\<close> ones; it raises \<^verbatim>\<open>ValueError\<close> for a negative
  \<open>n\<close>. An integer has no attribute \<^verbatim>\<open>shape\<close>.
\<close>

datatype x_test = Table nat nat | Periods int

fun shape0 :: "x_test \<Rightarrow> py_error + nat" where
  "shape0 (Table rows cols) = Inr rows"
| "shape0 (Periods k) = Inl AttributeError"

definition np_ones :: "int \<Rightarrow> py_error + real list" where
  "np_ones n = (if n < 0 then Inl ValueError else Inr (replicate (nat n) 1))"

text \<open>\<^verbatim>\<open>BaseEstimator.predict\<close> (lines 126-140).\<close>

definition BaseEstimator_predict ::
  "(x_test \<Rightarrow> x_test) \<Rightarrow> ('m \<Rightarrow> x_test \<Rightarrow> py_error + real list) \<Rightarrow>
   'm option \<Rightarrow> x_test \<Rightarrow> py_error + real list" where
  "BaseEstimator_predict preprocess model_predict model X_test =
     (case model of
        Some m \<Rightarrow> model_predict m (preprocess X_test)
      | None \<Rightarrow> and_then (shape0 X_test) (\<lambda>rows. np_ones (int rows)))"

text \<open>
  \<^verbatim>\<open>Prophet.predict\<close> (lines 1094-1109): an integer argument is refused before the
  model is looked at.
\<close>

definition Prophet_predict ::
  "(x_test \<Rightarrow> x_test) \<Rightarrow> ('m \<Rightarrow> x_test \<Rightarrow> py_error + real list) \<Rightarrow>
   'm option \<Rightarrow> x_test \<Rightarrow> py_error + real list" where
  "Prophet_predict preprocess model_predict model X_test =
     (case X_test of
        Periods k \<Rightarrow> Inl ValueError
      | Table rows cols \<Rightarrow>
          (case model of
             Some m \<Rightarrow> model_predict m (preprocess X_test)
           | None \<Rightarrow> and_then (shape0 X_test) (\<lambda>rows. np_ones (int rows))))"

text \<open>
  \<^verbatim>\<open>ARIMA.predict\<close> (lines 1172-1197). With a model, an integer is forecast by
  \<^verbatim>\<open>forecast(steps=X_test)\<close> and a table by the model's \<^verbatim>\<open>predict\<close>; the final
  \<^verbatim>\<open>ValueError\<close> branch of the source is for arguments of any other type, which
  \<open>x_test\<close> does not have. Without a model:
  \<^verbatim>\<open>np.ones(X_test if isinstance(X_test, int) else X_test.shape[0])\<close>.
\<close>

definition ARIMA_predict ::
  "('m \<Rightarrow> int \<Rightarrow> py_error + real list) \<Rightarrow> ('m \<Rightarrow> x_test \<Rightarrow> py_error + real list) \<Rightarrow>
   'm option \<Rightarrow> x_test \<Rightarrow> py_error + real list" where
  "ARIMA_predict model_forecast model_predict model X_test =
     (case model of
        Some m \<Rightarrow>
          (case X_test of
             Periods k \<Rightarrow> model_forecast m k
           | Table rows cols \<Rightarrow> model_predict m X_test)
      | None \<Rightarrow>
          (case X_test of
             Periods k \<Rightarrow> np_ones k
           | Table rows cols \<Rightarrow> and_then (shape0 X_test) (\<lambda>rows. np_ones (int rows))))"

text \<open>
  \<^verbatim>\<open>TransformersEstimator.predict\<close> (lines 354-368). Its argument is a data frame, a
  list of strings or a list of lists of strings. Of a data frame the method reads
  whether the first column has the dtype \<^verbatim>\<open>"string"\<close>; \<^verbatim>\<open>dtypes[0]\<close> raises
  \<^verbatim>\<open>IndexError\<close> on a frame without columns, and so does \<^verbatim>\<open>X_test[0]\<close> on an empty
  list. A list of lists is transposed by \<^verbatim>\<open>zip(*X_test)\<close>, which stops at the shortest
  inner list, into one column per position; a list of strings becomes one row with one
  column per string. Which dtype the library gives a column built from Python strings
  is the parameter \<open>string_dtype\<close>, and \<^verbatim>\<open>_preprocess\<close> (the tokenizer, which also
  raises \<^verbatim>\<open>KeyError\<close> without \<^verbatim>\<open>custom_hpo_args\<close>) is the parameter \<open>preprocess\<close>.
  The method reads no model and has no \<^verbatim>\<open>return\<close> statement: where it does not
  raise, its value is \<^verbatim>\<open>None\<close>, the \<open>None\<close> of \<open>real list option\<close>.
\<close>

record text_frame =
  frame_columns :: nat
  frame_rows :: nat
  first_dtype_string :: bool

datatype text_test =
    Frame text_frame
  | Strings "string list"
  | StringLists "string list list"

text \<open>\<^verbatim>\<open>[x for x in zip(*xss)]\<close> for a non-empty \<open>xss\<close>.\<close>

definition py_zip_star :: "'a list list \<Rightarrow> 'a list list" where
  "py_zip_star xss =
     map (\<lambda>i. map (\<lambda>xs. xs ! i) xss) [0 ..< Min (set (map length xss))]"

definition TransformersEstimator_predict ::
  "(string list \<Rightarrow> bool) \<Rightarrow> (text_frame \<Rightarrow> py_error + text_frame) \<Rightarrow>
   'm option \<Rightarrow> text_test \<Rightarrow> py_error + real list option" where
  "TransformersEstimator_predict string_dtype preprocess model X_test =
     and_then
       (case X_test of
          Frame f \<Rightarrow> Inr f
        | StringLists xss \<Rightarrow>
            (if xss = [] then Inl IndexError
             else
               (let unzipped_X_test = py_zip_star xss
                in Inr \<lparr>frame_columns = length unzipped_X_test,
                        frame_rows = length xss,
                        first_dtype_string =
                          (case unzipped_X_test of
                             [] \<Rightarrow> False
                           | column # others \<Rightarrow> string_dtype column)\<rparr>))
        | Strings xs \<Rightarrow>
            (case xs of
               [] \<Rightarrow> Inl IndexError
             | x # others \<Rightarrow>
                 Inr \<lparr>frame_columns = length xs, frame_rows = 1,
                      first_dtype_string = string_dtype [x]\<rparr>))
       (\<lambda>X. if frame_columns X = 0 then Inl IndexError
            else if first_dtype_string X then and_then (preprocess X) (\<lambda>X. Inr None)
            else Inr None)"

text \<open>
  On a table, \<^verbatim>\<open>BaseEstimator.predict\<close>, \<^verbatim>\<open>Prophet.predict\<close> and
  \<^verbatim>\<open>ARIMA.predict\<close> without a model raise nothing and return the all-ones vector
  whose length is the number of rows.
\<close>

lemma predict_unfitted_ones:
  "BaseEstimator_predict preprocess model_predict None (Table rows cols) = Inr (replicate rows 1)
   \<and> Prophet_predict preprocess model_predict None (Table rows cols) = Inr (replicate rows 1)
   \<and> ARIMA_predict model_forecast model_predict None (Table rows cols) = Inr (replicate rows 1)
   \<and> length (replicate rows (1::real)) = rows"
  by (simp add: BaseEstimator_predict_def Prophet_predict_def ARIMA_predict_def
                and_then_def np_ones_def)

lemma TransformersEstimator_predict_no_predictions:
  "TransformersEstimator_predict string_dtype preprocess model X_test \<noteq> Inr (Some predictions)"
  by (auto simp: TransformersEstimator_predict_def and_then_def Let_def
           split: text_test.splits sum.splits list.splits if_splits)

text \<open>
  C6. On every estimator whose internal model is \<^verbatim>\<open>None\<close>, \<^verbatim>\<open>predict(X)\<close> is to
  raise nothing and to return the all-ones vector with one entry per row of \<open>X\<close>.
  \<^verbatim>\<open>BaseEstimator.predict\<close>, \<^verbatim>\<open>Prophet.predict\<close> and \<^verbatim>\<open>ARIMA.predict\<close> do
  (\<open>predict_unfitted_ones\<close> above). \<^verbatim>\<open>TransformersEstimator.predict\<close> does not: on
  a data frame of three rows whose first column is not of dtype \<^verbatim>\<open>"string"\<close> it
  returns \<^verbatim>\<open>None\<close>, and on no argument and with no model does it return a vector.
\<close>

theorem TransformersEstimator_predict_unfitted_none:
  "TransformersEstimator_predict string_dtype preprocess None
     (Frame \<lparr>frame_columns = 2, frame_rows = 3, first_dtype_string = False\<rparr>) = Inr None
   \<and> TransformersEstimator_predict string_dtype preprocess None
       (Frame \<lparr>frame_columns = 2, frame_rows = 3, first_dtype_string = False\<rparr>)
     \<noteq> Inr (Some (replicate 3 1))
   \<and> TransformersEstimator_predict string_dtype preprocess model X_test
     \<noteq> Inr (Some predictions)"
  using TransformersEstimator_predict_no_predictions
          [of string_dtype preprocess model X_test predictions]
  by (simp add: TransformersEstimator_predict_def and_then_def)

lemma ARIMA_predict_unfitted_periods:
  "0 \<le> k \<Longrightarrow> ARIMA_predict model_forecast model_predict None (Periods k) = Inr (replicate (nat k) 1)"
  by (simp add: ARIMA_predict_def np_ones_def)

lemma Prophet_predict_periods:
  "Prophet_predict preprocess model_predict model (Periods k) = Inl ValueError"
  by (simp add: Prophet_predict_def)

section \<open>\<^verbatim>\<open>XGBoostEstimator.fit\<close>\<close>

text \<open>
  The estimator of the native XGBoost API keeps its parameters in the dictionary
  \<^verbatim>\<open>self.params\<close>. \<open>xgb_trains\<close> is the trace of the calls of \<^verbatim>\<open>xgb.train\<close>: the
  parameter dictionary passed, the number of boosting rounds, the \<^verbatim>\<open>obj\<close> argument,
  and whether the training matrix carries sample weights. The trained booster is
  opaque; \<open>xgb_model\<close> remembers the number of rounds it was trained with. The clock is
  a sequence of readings, \<open>clock i\<close> being what the \<open>i\<close>-th call of \<^verbatim>\<open>time.time()\<close>
  returns; \<open>xgb_ticks\<close> counts the calls made so far.
\<close>

record xgb_estimator =
  xgb_params :: pydict
  xgb_model :: "pyval option"
  xgb_trains :: "(pydict \<times> pyval \<times> pyval \<times> bool) list"
  xgb_ticks :: nat

fun is_str :: "pyval \<Rightarrow> bool" where
  "is_str (PStr s) = True"
| "is_str PNone = False"
| "is_str (PBool b) = False"
| "is_str (PInt i) = False"
| "is_str (PFloat x) = False"
| "is_str (PCallable f) = False"

text \<open>
  \<^verbatim>\<open>XGBoostEstimator.fit\<close> (lines 604-630). \<open>sparse\<close> is \<^verbatim>\<open>issparse(X_train)\<close>,
  \<open>weighted\<close> is \<^verbatim>\<open>"sample_weight" in kwargs\<close>; \<open>budget\<close> is accepted and never
  read. \<^verbatim>\<open>self.params.pop("n_estimators")\<close> raises \<^verbatim>\<open>KeyError\<close> when the key is
  missing.
\<close>

definition XGBoostEstimator_fit ::
  "(nat \<Rightarrow> real) \<Rightarrow> xgb_estimator \<Rightarrow> bool \<Rightarrow> bool \<Rightarrow> real option \<Rightarrow>
   py_error + real \<times> xgb_estimator" where
  "XGBoostEstimator_fit clock self sparse weighted budget =
     (let start_time = clock (xgb_ticks self);
          params1 = (if sparse then (xgb_params self)(''tree_method'' \<mapsto> PStr ''auto'')
                     else xgb_params self);
          objective = py_get params1 ''objective'';
          obj = (if is_str objective then PNone else objective);
          params2 = (if is_str objective then params1 else params1(''objective'' := None))
      in case params2 ''n_estimators'' of
           None \<Rightarrow> Inl KeyError
         | Some n_estimators' \<Rightarrow>
             (let params3 = params2(''n_estimators'' := None);
                  booster = n_estimators';
                  call = (params3, n_estimators', obj, weighted);
                  params4 = params3(''objective'' \<mapsto> objective);
                  params5 = params4(''n_estimators'' \<mapsto> n_estimators');
                  train_time = clock (xgb_ticks self + 1) - start_time
              in Inr (train_time,
                      self\<lparr>xgb_params := params5, xgb_model := Some booster,
                           xgb_trains := xgb_trains self @ [call],
                           xgb_ticks := xgb_ticks self + 2\<rparr>)))"

text \<open>
  C10. Whatever the budget (\<^verbatim>\<open>None\<close>, zero or positive), \<^verbatim>\<open>XGBoostEstimator.fit\<close> on
  an estimator whose parameters hold \<^verbatim>\<open>n_estimators\<close> returns after exactly one call of
  \<^verbatim>\<open>xgb.train\<close>, with the complete \<^verbatim>\<open>n_estimators\<close> as the number of rounds (no probe,
  no reduced count), and afterwards \<^verbatim>\<open>self.params\<close> holds the same \<^verbatim>\<open>n_estimators\<close>
  and the same \<^verbatim>\<open>objective\<close> (as read by \<^verbatim>\<open>self.params.get("objective")\<close>) as before
  the call.
\<close>

theorem XGBoostEstimator_fit_single_run:
  assumes "xgb_params self ''n_estimators'' = Some n"
  shows "\<exists>t self' p obj.
           XGBoostEstimator_fit clock self sparse weighted budget = Inr (t, self')
           \<and> xgb_trains self' = xgb_trains self @ [(p, n, obj, weighted)]
           \<and> xgb_params self' ''n_estimators'' = Some n
           \<and> py_get (xgb_params self') ''objective'' = py_get (xgb_params self) ''objective''"
  using assms
  by (auto simp: XGBoostEstimator_fit_def Let_def py_get_def split: option.splits)

theorem XGBoostEstimator_fit_single_run_witness:
  "\<exists>t self' p obj.
     XGBoostEstimator_fit (\<lambda>i. real i)
       \<lparr>xgb_params = [''n_estimators'' \<mapsto> PInt 40, ''objective'' \<mapsto> PStr ''reg:squarederror''],
        xgb_model = None, xgb_trains = [], xgb_ticks = 0\<rparr>
       False False (Some 0) = Inr (t, self')
     \<and> xgb_trains self' = [(p, PInt 40, obj, False)]
     \<and> xgb_params self' ''n_estimators'' = Some (PInt 40)
     \<and> py_get (xgb_params self') ''objective'' = PStr ''reg:squarederror''"
  using XGBoostEstimator_fit_single_run
    [of "\<lparr>xgb_params = [''n_estimators'' \<mapsto> PInt 40, ''objective'' \<mapsto> PStr ''reg:squarederror''],
          xgb_model = None, xgb_trains = [], xgb_ticks = 0\<rparr>"
        "PInt 40" "\<lambda>i. real i" False False "Some 0"]
  by (simp add: py_get_def)

section \<open>The budget-aware fit of the tree-ensemble estimators\<close>

text \<open>
  The state of one estimator, as \<^verbatim>\<open>LGBMEstimator.fit\<close> and
  \<^verbatim>\<open>CatBoostEstimator.fit\<close> read and write it:
  \<^item> \<open>n_estimators\<close> is \<^verbatim>\<open>self.params["n_estimators"]\<close>;
  \<^item> \<open>time_per_iter\<close>, \<open>train_size\<close>, \<open>t1\<close>, \<open>t2\<close> are the attributes
    \<^verbatim>\<open>_time_per_iter\<close>, \<^verbatim>\<open>_train_size\<close>, \<^verbatim>\<open>_t1\<close>, \<^verbatim>\<open>_t2\<close>; an attribute that was
    never assigned, or holds \<^verbatim>\<open>None\<close>, is \<open>None\<close>;
  \<^item> \<open>smallmodel\<close> and \<open>model\<close> are \<^verbatim>\<open>_smallmodel\<close> and \<^verbatim>\<open>_model\<close>. The trained
    model is opaque: what is kept of it is the number of iterations it was built with;
  \<^item> \<open>fits\<close> is the trace of the training runs of the underlying library, each with
    the number of iterations and the number of training rows it was given;
  \<^item> \<open>ticks\<close> counts the calls of \<^verbatim>\<open>time.time()\<close>; the clock is a sequence of
    readings, \<open>clock i\<close> being what the \<open>i\<close>-th call returns.
  CatBoost keeps \<^verbatim>\<open>_time_per_iter\<close>, \<^verbatim>\<open>_train_size\<close>, \<^verbatim>\<open>_t1\<close> and \<^verbatim>\<open>_smallmodel\<close>
  on the class; with one estimator at work the class attributes are fields of the same
  record.
\<close>

record estimator =
  n_estimators :: int
  time_per_iter :: "real option"
  train_size :: int
  t1 :: "real option"
  t2 :: "real option"
  smallmodel :: "int option"
  model :: "int option"
  fits :: "(int \<times> int) list"
  ticks :: nat

text \<open>One call of \<^verbatim>\<open>time.time()\<close>.\<close>

definition read_clock :: "(nat \<Rightarrow> real) \<Rightarrow> estimator \<Rightarrow> real \<times> estimator" where
  "read_clock clock self = (clock (ticks self), self\<lparr>ticks := ticks self + 1\<rparr>)"

text \<open>
  \<^verbatim>\<open>BaseEstimator._fit\<close> (lines 87-111): build a model from \<^verbatim>\<open>self.params\<close>, train
  it, store it, and return the time between the two clock readings.
\<close>

definition BaseEstimator__fit :: "(nat \<Rightarrow> real) \<Rightarrow> estimator \<Rightarrow> int \<Rightarrow> real \<times> estimator" where
  "BaseEstimator__fit clock self rows =
     (let (current_time, self) = read_clock clock self;
          built = n_estimators self;
          self = self\<lparr>fits := fits self @ [(built, rows)]\<rparr>;
          (now, self) = read_clock clock self;
          train_time = now - current_time
      in (train_time, self\<lparr>model := Some built\<rparr>))"

text \<open>
  \<^verbatim>\<open>not self._time_per_iter\<close>: true for \<^verbatim>\<open>None\<close> and for zero.
\<close>

definition falsy :: "real option \<Rightarrow> bool" where
  "falsy x = (x = None \<or> x = Some 0)"

text \<open>
  The Budget Solver's count (lines 512-518, and 945-953 with \<^verbatim>\<open>train_times = 1\<close>):
  \<^verbatim>\<open>min(n_iter, int((budget - time.time() + start_time - self._t1) / self._time_per_iter + 1))\<close>.
\<close>

definition max_iter :: "int \<Rightarrow> real \<Rightarrow> real \<Rightarrow> real \<Rightarrow> real \<Rightarrow> real \<Rightarrow> int" where
  "max_iter n_iter budget now start_time t1' tpi =
     min n_iter (py_int ((budget - now + start_time - t1') / tpi + 1))"

subsection \<open>\<^verbatim>\<open>LGBMEstimator.fit\<close>\<close>

text \<open>The condition of lines 487-491: the cache is stale, a budget is given, and more
  than one iteration is requested.\<close>

definition LGBM_probes :: "estimator \<Rightarrow> int \<Rightarrow> real option \<Rightarrow> bool" where
  "LGBM_probes self rows budget =
     ((falsy (time_per_iter self) \<or> 4 < \<bar>train_size self - rows\<bar>)
      \<and> budget \<noteq> None \<and> 1 < n_estimators self)"

text \<open>Lines 499-505. The divisor \<open>k - 1\<close> is at least 1 where the function is used:
  \<open>k\<close> is \<^verbatim>\<open>min(n_iter, 4)\<close> with \<^verbatim>\<open>n_iter > 1\<close>.\<close>

definition LGBM_time_per_iter :: "real \<Rightarrow> real \<Rightarrow> int \<Rightarrow> real" where
  "LGBM_time_per_iter t1' t2' k =
     (if t1' < t2' then (t2' - t1') / (of_int k - 1)
      else if t1' \<noteq> 0 then t1'
      else 1 / 1000)"

text \<open>Lines 522-527: the definitive fit, or, for a count that is not positive, the
  count of the stored model (\<^verbatim>\<open>None\<close> has no attribute \<^verbatim>\<open>n_estimators\<close>).\<close>

definition LGBM_final ::
  "(nat \<Rightarrow> real) \<Rightarrow> real \<Rightarrow> estimator \<Rightarrow> int \<Rightarrow> py_error + real \<times> estimator" where
  "LGBM_final clock start_time self rows =
     (if 0 < n_estimators self then
        (let (t, self) = BaseEstimator__fit clock self rows;
             (now, self) = read_clock clock self
         in Inr (now - start_time, self))
      else
        (case model self of
           None \<Rightarrow> Inl AttributeError
         | Some m \<Rightarrow>
             (let self = self\<lparr>n_estimators := m\<rparr>;
                  (now, self) = read_clock clock self
              in Inr (now - start_time, self))))"

text \<open>Lines 511-521, then the final stage. The clock is read first, then
  \<^verbatim>\<open>self._t1\<close>, then \<^verbatim>\<open>self._time_per_iter\<close>; dividing by \<^verbatim>\<open>None\<close> raises
  \<^verbatim>\<open>TypeError\<close>, by zero \<^verbatim>\<open>ZeroDivisionError\<close>.\<close>

definition LGBM_solve ::
  "(nat \<Rightarrow> real) \<Rightarrow> real \<Rightarrow> int \<Rightarrow> bool \<Rightarrow> estimator \<Rightarrow> int \<Rightarrow> real option \<Rightarrow>
   py_error + real \<times> estimator" where
  "LGBM_solve clock start_time n_iter trained self rows budget =
     (case budget of
        None \<Rightarrow> LGBM_final clock start_time self rows
      | Some b \<Rightarrow>
          if 1 < n_iter then
            (let (now, self) = read_clock clock self
             in case t1 self of
                  None \<Rightarrow> Inl AttributeError
                | Some t1' \<Rightarrow>
                    (case time_per_iter self of
                       None \<Rightarrow> Inl TypeError
                     | Some tpi \<Rightarrow>
                         if tpi = 0 then Inl ZeroDivisionError
                         else
                           (let max_iter' = max_iter n_iter b now start_time t1' tpi
                            in if trained \<and> max_iter' \<le> n_estimators self then
                                 (let (now, self) = read_clock clock self
                                  in Inr (now - start_time, self))
                               else
                                 LGBM_final clock start_time
                                   (self\<lparr>n_estimators := max_iter'\<rparr>) rows)))
          else LGBM_final clock start_time self rows)"

text \<open>\<^verbatim>\<open>LGBMEstimator.fit\<close> (lines 483-527). \<open>rows\<close> is \<^verbatim>\<open>X_train.shape[0]\<close>.
  Comparing a float with a budget of \<^verbatim>\<open>None\<close> would raise \<^verbatim>\<open>TypeError\<close>; the
  probe condition excludes it.\<close>

definition LGBMEstimator_fit ::
  "(nat \<Rightarrow> real) \<Rightarrow> estimator \<Rightarrow> int \<Rightarrow> real option \<Rightarrow> py_error + real \<times> estimator" where
  "LGBMEstimator_fit clock self rows budget =
     (let (start_time, self) = read_clock clock self;
          n_iter = n_estimators self
      in if LGBM_probes self rows budget then
           (case budget of
              None \<Rightarrow> Inl TypeError
            | Some b \<Rightarrow>
                (let (t1', self) = BaseEstimator__fit clock (self\<lparr>n_estimators := 1\<rparr>) rows;
                     self = self\<lparr>t1 := Some t1'\<rparr>
                 in if b \<le> t1' \<or> n_iter = 1 then Inr (t1', self)
                    else
                      (let (t2', self) =
                             BaseEstimator__fit clock (self\<lparr>n_estimators := min n_iter 4\<rparr>) rows;
                           self = self\<lparr>t2 := Some t2'\<rparr>;
                           self = self\<lparr>time_per_iter :=
                                         Some (LGBM_time_per_iter t1' t2' (n_estimators self))\<rparr>;
                           self = self\<lparr>train_size := rows\<rparr>
                       in if b \<le> t1' + t2' \<or> n_iter = n_estimators self then
                            (let (now, self) = read_clock clock self
                             in Inr (now - start_time, self))
                          else LGBM_solve clock start_time n_iter True self rows budget)))
         else LGBM_solve clock start_time n_iter False self rows budget)"

subsection \<open>\<^verbatim>\<open>CatBoostEstimator.fit\<close>\<close>

text \<open>\<^verbatim>\<open>budget\<close> as a condition: true unless it is \<^verbatim>\<open>None\<close> or zero.\<close>

definition truthy :: "real option \<Rightarrow> bool" where
  "truthy budget = (budget \<noteq> None \<and> budget \<noteq> Some 0)"

text \<open>The condition of lines 899-906.\<close>

definition CatBoost_probes :: "estimator \<Rightarrow> int \<Rightarrow> real option \<Rightarrow> bool" where
  "CatBoost_probes self rows budget =
     ((falsy (time_per_iter self) \<or> 4 < \<bar>train_size self - rows\<bar>)
      \<and> truthy budget \<and> 4 < n_estimators self)"

text \<open>A calibration fit (lines 909-914 and 922-927): a model built from
  \<^verbatim>\<open>self.params\<close> and trained on all rows becomes \<^verbatim>\<open>_smallmodel\<close>.\<close>

definition CatBoost_small_fit :: "estimator \<Rightarrow> int \<Rightarrow> estimator" where
  "CatBoost_small_fit self rows =
     self\<lparr>smallmodel := Some (n_estimators self),
          fits := fits self @ [(n_estimators self, rows)]\<rparr>"

text \<open>Lines 958-988. The definitive fit trains on the first
  \<^verbatim>\<open>n = max(int(len(y_train) * 0.9), len(y_train) - 1000)\<close> rows and keeps the rest
  for evaluation. \<open>tree_count\<close> is what the library reports as \<^verbatim>\<open>tree_count_\<close> of a
  stored model.\<close>

definition CatBoost_final ::
  "(nat \<Rightarrow> real) \<Rightarrow> (int \<Rightarrow> int) \<Rightarrow> real \<Rightarrow> estimator \<Rightarrow> int \<Rightarrow>
   py_error + real \<times> estimator" where
  "CatBoost_final clock tree_count start_time self rows =
     (if 0 < n_estimators self then
        (let n = max (py_int (of_int rows * (9 / 10))) (rows - 1000);
             built = n_estimators self;
             self = self\<lparr>fits := fits self @ [(built, n)]\<rparr>;
             self = self\<lparr>model := Some built\<rparr>;
             (now, self) = read_clock clock self
         in Inr (now - start_time, self))
      else
        (case model self of
           None \<Rightarrow> Inl AttributeError
         | Some m \<Rightarrow>
             (let self = self\<lparr>n_estimators := tree_count m\<rparr>;
                  (now, self) = read_clock clock self
              in Inr (now - start_time, self))))"

text \<open>Lines 943-957, then the final stage. \<^verbatim>\<open>train_times\<close> is 1, so the count is
  \<open>max_iter\<close>. \<^verbatim>\<open>_smallmodel\<close> is read after the count is computed; the class has
  no such attribute before the first calibration fit.\<close>

definition CatBoost_solve ::
  "(nat \<Rightarrow> real) \<Rightarrow> (int \<Rightarrow> int) \<Rightarrow> real \<Rightarrow> int \<Rightarrow> bool \<Rightarrow> estimator \<Rightarrow> int \<Rightarrow>
   real option \<Rightarrow> py_error + real \<times> estimator" where
  "CatBoost_solve clock tree_count start_time n_iter trained self rows budget =
     (case budget of
        None \<Rightarrow> CatBoost_final clock tree_count start_time self rows
      | Some b \<Rightarrow>
          if b \<noteq> 0 \<and> 4 < n_iter then
            (let (now, self) = read_clock clock self
             in case t1 self of
                  None \<Rightarrow> Inl AttributeError
                | Some t1' \<Rightarrow>
                    (case time_per_iter self of
                       None \<Rightarrow> Inl TypeError
                     | Some tpi \<Rightarrow>
                         if tpi = 0 then Inl ZeroDivisionError
                         else
                           (let max_iter' = max_iter n_iter b now start_time t1' tpi
                            in case smallmodel self of
                                 None \<Rightarrow> Inl AttributeError
                               | Some small \<Rightarrow>
                                   (let self = self\<lparr>model := Some small\<rparr>
                                    in if trained \<and> max_iter' \<le> n_estimators self then
                                         (let (now, self) = read_clock clock self
                                          in Inr (now - start_time, self))
                                       else
                                         CatBoost_final clock tree_count start_time
                                           (self\<lparr>n_estimators := max_iter'\<rparr>) rows))))
          else CatBoost_final clock tree_count start_time self rows)"

text \<open>\<^verbatim>\<open>CatBoostEstimator.fit\<close> (lines 885-988). \<open>rows\<close> is \<^verbatim>\<open>len(y_train)\<close>. The
  first calibration time is read off the clock since the start of the call; the
  per-iteration time is the time of the second calibration fit over
  \<^verbatim>\<open>n_estimators - 1\<close>, replaced by \<^verbatim>\<open>_t1\<close> when it is not positive.\<close>

definition CatBoostEstimator_fit ::
  "(nat \<Rightarrow> real) \<Rightarrow> (int \<Rightarrow> int) \<Rightarrow> estimator \<Rightarrow> int \<Rightarrow> real option \<Rightarrow>
   py_error + real \<times> estimator" where
  "CatBoostEstimator_fit clock tree_count self rows budget =
     (let (start_time, self) = read_clock clock self;
          n_iter = n_estimators self
      in if CatBoost_probes self rows budget then
           (case budget of
              None \<Rightarrow> Inl TypeError
            | Some b \<Rightarrow>
                (let self = CatBoost_small_fit (self\<lparr>n_estimators := 1\<rparr>) rows;
                     (now, self) = read_clock clock self;
                     t1' = now - start_time;
                     self = self\<lparr>t1 := Some t1'\<rparr>
                 in if b \<le> t1' \<or> n_iter = 1 then
                      Inr (t1', self\<lparr>model := smallmodel self\<rparr>)
                    else
                      (let self = CatBoost_small_fit (self\<lparr>n_estimators := min n_iter 4\<rparr>) rows;
                           (now, self) = read_clock clock self;
                           tpi = (now - start_time - t1') / (of_int (n_estimators self) - 1);
                           tpi = (if tpi \<le> 0 then t1' else tpi);
                           self = self\<lparr>time_per_iter := Some tpi\<rparr>;
                           self = self\<lparr>train_size := rows\<rparr>;
                           (now, self) = read_clock clock self
                       in if b \<le> now - start_time \<or> n_iter = n_estimators self then
                            (let self = self\<lparr>model := smallmodel self\<rparr>;
                                 (now, self) = read_clock clock self
                             in Inr (now - start_time, self))
                          else
                            CatBoost_solve clock tree_count start_time n_iter True self rows
                              budget)))
         else CatBoost_solve clock tree_count start_time n_iter False self rows budget)"

text \<open>An estimator on which \<^verbatim>\<open>fit\<close> was never called, constructed for \<open>n\<close>
  iterations: no model (line 50), no per-iteration time and a calibration size of 0
  (lines 464-465 and 799-800).\<close>

definition fresh_estimator :: "int \<Rightarrow> estimator" where
  "fresh_estimator n =
     \<lparr>n_estimators = n, time_per_iter = None, train_size = 0, t1 = None, t2 = None,
      smallmodel = None, model = None, fits = [], ticks = 0\<rparr>"

text \<open>Clocks for the concrete runs below: one that advances by \<open>step\<close> seconds at
  every reading, and one that reads 0 for its first \<open>k\<close> readings and \<open>later\<close>
  from then on (a clock too coarse to see the first fits).\<close>

definition steady_clock :: "real \<Rightarrow> nat \<Rightarrow> real" where
  "steady_clock step i = real i * step"

definition stalled_clock :: "nat \<Rightarrow> real \<Rightarrow> nat \<Rightarrow> real" where
  "stalled_clock k later i = (if i < k then 0 else later)"





lemmas fit_defs =
  LGBMEstimator_fit_def LGBM_probes_def LGBM_solve_def LGBM_final_def LGBM_time_per_iter_def
  CatBoostEstimator_fit_def CatBoost_probes_def CatBoost_solve_def CatBoost_final_def
  CatBoost_small_fit_def BaseEstimator__fit_def read_clock_def falsy_def truthy_def
  max_iter_def py_int_def fresh_estimator_def steady_clock_def stalled_clock_def Let_def

section \<open>Properties of the budget-aware fit\<close>

subsection \<open>The stages of \<^verbatim>\<open>LGBMEstimator.fit\<close>\<close>





lemma LGBM_time_per_iter_nonzero: "2 \<le> k \<Longrightarrow> LGBM_time_per_iter a b k \<noteq> 0"
  by (simp add: LGBM_time_per_iter_def)

lemma LGBM_probes_ticks [simp]:
  "LGBM_probes (self\<lparr>ticks := n\<rparr>) rows budget = LGBM_probes self rows budget"
  by (simp add: LGBM_probes_def)

lemma LGBM_fit_no_probe:
  "\<not> LGBM_probes self rows budget \<Longrightarrow>
   LGBMEstimator_fit clock self rows budget =
   LGBM_solve clock (clock (ticks self)) (n_estimators self) False
     (self\<lparr>ticks := ticks self + 1\<rparr>) rows budget"
  by (simp add: LGBMEstimator_fit_def read_clock_def Let_def)




subsection \<open>The stages of \<^verbatim>\<open>CatBoostEstimator.fit\<close>\<close>






lemma CatBoost_probes_ticks [simp]:
  "CatBoost_probes (self\<lparr>ticks := n\<rparr>) rows budget = CatBoost_probes self rows budget"
  by (simp add: CatBoost_probes_def)

lemma CatBoost_fit_no_probe:
  "\<not> CatBoost_probes self rows budget \<Longrightarrow>
   CatBoostEstimator_fit clock tree_count self rows budget =
   CatBoost_solve clock tree_count (clock (ticks self)) (n_estimators self) False
     (self\<lparr>ticks := ticks self + 1\<rparr>) rows budget"
  by (simp add: CatBoostEstimator_fit_def read_clock_def Let_def)




subsection \<open>The arithmetic of the Budget Solver\<close>






subsection \<open>Fits without a probe, and the probe that exhausts the budget\<close>

lemma LGBM_final_run:
  "0 < n_estimators self \<Longrightarrow>
   \<exists>t self'. LGBM_final clock start_time self rows = Inr (t, self')
     \<and> fits self' = fits self @ [(n_estimators self, rows)]
     \<and> model self' = Some (n_estimators self)
     \<and> n_estimators self' = n_estimators self"
  by (simp add: LGBM_final_def BaseEstimator__fit_def read_clock_def Let_def)

lemma LGBM_final_no_run:
  "\<not> 0 < n_estimators self \<Longrightarrow> model self = Some m \<Longrightarrow>
   \<exists>t self'. LGBM_final clock start_time self rows = Inr (t, self')
     \<and> fits self' = fits self \<and> n_estimators self' = m"
  by (simp add: LGBM_final_def read_clock_def Let_def)

lemma CatBoost_final_run:
  "0 < n_estimators self \<Longrightarrow>
   \<exists>t self'. CatBoost_final clock tree_count start_time self rows = Inr (t, self')
     \<and> fits self' = fits self @ [(n_estimators self,
                                   max (py_int (of_int rows * (9 / 10))) (rows - 1000))]
     \<and> model self' = Some (n_estimators self)
     \<and> n_estimators self' = n_estimators self"
  by (simp add: CatBoost_final_def read_clock_def Let_def)

lemma LGBM_direct:
  assumes "budget = None \<or> n_estimators self \<le> 1" and "0 < n_estimators self"
  shows "\<exists>t self'. LGBMEstimator_fit clock self rows budget = Inr (t, self')
           \<and> fits self' = fits self @ [(n_estimators self, rows)]
           \<and> model self' = Some (n_estimators self)
           \<and> n_estimators self' = n_estimators self"
proof -
  have np: "\<not> LGBM_probes self rows budget"
    using assms(1) by (auto simp: LGBM_probes_def)
  have "LGBM_solve clock (clock (ticks self)) (n_estimators self) False
          (self\<lparr>ticks := ticks self + 1\<rparr>) rows budget =
        LGBM_final clock (clock (ticks self)) (self\<lparr>ticks := ticks self + 1\<rparr>) rows"
    using assms(1) by (auto simp: LGBM_solve_def split: option.splits)
  then show ?thesis
    using LGBM_final_run [of "self\<lparr>ticks := ticks self + 1\<rparr>" clock "clock (ticks self)" rows]
      assms(2)
    by (simp add: LGBM_fit_no_probe [OF np])
qed

lemma CatBoost_direct:
  assumes "budget = None \<or> n_estimators self \<le> 1" and "0 < n_estimators self"
  shows "\<exists>t self'. CatBoostEstimator_fit clock tree_count self rows budget = Inr (t, self')
           \<and> fits self' = fits self @ [(n_estimators self,
                                         max (py_int (of_int rows * (9 / 10))) (rows - 1000))]
           \<and> model self' = Some (n_estimators self)
           \<and> n_estimators self' = n_estimators self"
proof -
  have np: "\<not> CatBoost_probes self rows budget"
    using assms(1) by (auto simp: CatBoost_probes_def truthy_def)
  have "CatBoost_solve clock tree_count (clock (ticks self)) (n_estimators self) False
          (self\<lparr>ticks := ticks self + 1\<rparr>) rows budget =
        CatBoost_final clock tree_count (clock (ticks self))
          (self\<lparr>ticks := ticks self + 1\<rparr>) rows"
    using assms(1) by (auto simp: CatBoost_solve_def split: option.splits)
  then show ?thesis
    using CatBoost_final_run
            [of "self\<lparr>ticks := ticks self + 1\<rparr>" clock tree_count "clock (ticks self)" rows]
      assms(2)
    by (simp add: CatBoost_fit_no_probe [OF np])
qed

text \<open>
  C5. For every \<^verbatim>\<open>fit\<close> call where \<^verbatim>\<open>budget\<close> is \<^verbatim>\<open>None\<close> or the requested
  iteration count is at most 1, no calibration fit is performed: \<^verbatim>\<open>LGBMEstimator.fit\<close>
  and \<^verbatim>\<open>CatBoostEstimator.fit\<close> return after exactly one training run, made with the
  full requested count, which stays in \<^verbatim>\<open>self.params\<close>. The requested count is a
  positive integer, as the data model of the specification has it. (CatBoost's one run
  trains on the leading rows and holds the rest out for evaluation.)
\<close>

theorem fit_without_budget_or_single_iteration:
  assumes "budget = None \<or> n_estimators self \<le> 1" and "0 < n_estimators self"
  shows "(\<exists>t self'. LGBMEstimator_fit clock self rows budget = Inr (t, self')
            \<and> fits self' = fits self @ [(n_estimators self, rows)]
            \<and> model self' = Some (n_estimators self)
            \<and> n_estimators self' = n_estimators self)
       \<and> (\<exists>t self'. CatBoostEstimator_fit clock tree_count self rows budget = Inr (t, self')
            \<and> fits self' = fits self @ [(n_estimators self,
                                          max (py_int (of_int rows * (9 / 10))) (rows - 1000))]
            \<and> model self' = Some (n_estimators self)
            \<and> n_estimators self' = n_estimators self)"
  using LGBM_direct [OF assms] CatBoost_direct [OF assms] by simp

lemma py_int_900: "py_int (of_int 1000 * (9 / 10)) = 900"
  by (simp add: py_int_def)

theorem fit_without_budget_or_single_iteration_witness:
  "(\<exists>t self'. LGBMEstimator_fit (\<lambda>i. real i) (fresh_estimator 100) 1000 None = Inr (t, self')
       \<and> fits self' = [(100, 1000)] \<and> model self' = Some 100 \<and> n_estimators self' = 100)
   \<and> (\<exists>t self'. CatBoostEstimator_fit (\<lambda>i. real i) id (fresh_estimator 100) 1000 None
                  = Inr (t, self')
       \<and> fits self' = [(100, 900)] \<and> model self' = Some 100 \<and> n_estimators self' = 100)"
  using fit_without_budget_or_single_iteration
          [of None "fresh_estimator 100" "\<lambda>i. real i" 1000 id] py_int_900
  by (simp add: fresh_estimator_def)

lemma LGBM_stop_after_first:
  assumes "falsy (time_per_iter self) \<or> 4 < \<bar>train_size self - rows\<bar>"
    and "1 < n_estimators self"
    and "b \<le> clock (ticks self + 2) - clock (ticks self + 1)"
  shows "\<exists>self'. LGBMEstimator_fit clock self rows (Some b) =
                   Inr (clock (ticks self + 2) - clock (ticks self + 1), self')
           \<and> fits self' = fits self @ [(1, rows)]
           \<and> model self' = Some 1"
  using assms
  by (simp add: LGBMEstimator_fit_def LGBM_probes_def read_clock_def BaseEstimator__fit_def
                Let_def)

lemma CatBoost_stop_after_first:
  assumes "falsy (time_per_iter self) \<or> 4 < \<bar>train_size self - rows\<bar>"
    and "4 < n_estimators self" and "b \<noteq> 0"
    and "b \<le> clock (ticks self + 1) - clock (ticks self)"
  shows "\<exists>self'. CatBoostEstimator_fit clock tree_count self rows (Some b) =
                   Inr (clock (ticks self + 1) - clock (ticks self), self')
           \<and> fits self' = fits self @ [(1, rows)]
           \<and> model self' = Some 1"
  using assms
  by (simp add: CatBoostEstimator_fit_def CatBoost_probes_def truthy_def read_clock_def
                CatBoost_small_fit_def Let_def)

text \<open>
  C2. During probing (a budget \<open>b\<close> is given, more than one iteration is requested,
  the cache is stale), when the 1-iteration calibration fit takes \<open>t1 \<ge> b\<close>, \<^verbatim>\<open>fit\<close>
  trains nothing more: it returns \<open>t1\<close> at once, the trace holds the one 1-iteration
  run, and the stored model is the 1-iteration model. LightGBM measures \<open>t1\<close> inside
  \<^verbatim>\<open>_fit\<close>; CatBoost, which probes for more than 4 requested iterations and a
  non-zero budget, measures it from the start of the call.
\<close>

theorem probe_stops_when_first_fit_uses_budget:
  assumes "falsy (time_per_iter self) \<or> 4 < \<bar>train_size self - rows\<bar>"
  shows "(1 < n_estimators self \<and> b \<le> clock (ticks self + 2) - clock (ticks self + 1) \<longrightarrow>
           (\<exists>self'. LGBMEstimator_fit clock self rows (Some b) =
                       Inr (clock (ticks self + 2) - clock (ticks self + 1), self')
              \<and> fits self' = fits self @ [(1, rows)]
              \<and> model self' = Some 1))
       \<and> (4 < n_estimators self \<and> b \<noteq> 0 \<and> b \<le> clock (ticks self + 1) - clock (ticks self) \<longrightarrow>
           (\<exists>self'. CatBoostEstimator_fit clock tree_count self rows (Some b) =
                       Inr (clock (ticks self + 1) - clock (ticks self), self')
              \<and> fits self' = fits self @ [(1, rows)]
              \<and> model self' = Some 1))"
  using LGBM_stop_after_first [OF assms] CatBoost_stop_after_first [OF assms] by blast

theorem probe_stops_when_first_fit_uses_budget_witness:
  "(\<exists>self'. LGBMEstimator_fit (\<lambda>i. real i / 5) (fresh_estimator 100) 1000 (Some (1 / 20)) =
              Inr (1 / 5, self')
       \<and> fits self' = [(1, 1000)] \<and> model self' = Some 1)
   \<and> (\<exists>self'. CatBoostEstimator_fit (\<lambda>i. real i / 5) id (fresh_estimator 100) 1000
                 (Some (1 / 20)) = Inr (1 / 5, self')
       \<and> fits self' = [(1, 1000)] \<and> model self' = Some 1)"
  using probe_stops_when_first_fit_uses_budget
          [of "fresh_estimator 100" 1000 "1 / 20" "\<lambda>i. real i / 5" id]
  by (simp add: fresh_estimator_def falsy_def)

subsection \<open>The count of the Budget Solver\<close>



lemma CatBoost_fit_cached_run:
  assumes "time_per_iter self = Some tpi" and "tpi \<noteq> 0" and "t1 self = Some t1'"
    and "\<bar>train_size self - rows\<bar> \<le> 4" and "4 < n_estimators self" and "b \<noteq> 0"
    and "smallmodel self = Some small"
    and "count = max_iter (n_estimators self) b (clock (ticks self + 1)) (clock (ticks self)) t1' tpi"
    and "0 < count"
  shows "\<exists>t self'. CatBoostEstimator_fit clock tree_count self rows (Some b) = Inr (t, self')
           \<and> n_estimators self' = count
           \<and> fits self' = fits self @ [(count, max (py_int (of_int rows * (9 / 10))) (rows - 1000))]"
proof -
  have np: "\<not> CatBoost_probes self rows (Some b)"
    using assms(1,2,4) by (simp add: CatBoost_probes_def falsy_def)
  show ?thesis
    using assms
    by (simp add: CatBoost_fit_no_probe [OF np] CatBoost_solve_def CatBoost_final_def
                  read_clock_def Let_def)
qed

lemma CatBoost_fit_cached_no_run:
  assumes "time_per_iter self = Some tpi" and "tpi \<noteq> 0" and "t1 self = Some t1'"
    and "\<bar>train_size self - rows\<bar> \<le> 4" and "4 < n_estimators self" and "b \<noteq> 0"
    and "smallmodel self = Some small"
    and "count = max_iter (n_estimators self) b (clock (ticks self + 1)) (clock (ticks self)) t1' tpi"
    and "count \<le> 0"
  shows "\<exists>t self'. CatBoostEstimator_fit clock tree_count self rows (Some b) = Inr (t, self')
           \<and> n_estimators self' = tree_count small \<and> fits self' = fits self"
proof -
  have np: "\<not> CatBoost_probes self rows (Some b)"
    using assms(1,2,4) by (simp add: CatBoost_probes_def falsy_def)
  show ?thesis
    using assms
    by (simp add: CatBoost_fit_no_probe [OF np] CatBoost_solve_def CatBoost_final_def
                  read_clock_def Let_def)
qed





subsection \<open>The cached per-iteration time\<close>

lemma LGBM_time_per_iter_fallback:
  assumes "t2' \<le> t1'" and "0 \<le> t1'"
  shows "LGBM_time_per_iter t1' t2' k = (if 0 < t1' then t1' else 1 / 1000)
         \<and> 0 < LGBM_time_per_iter t1' t2' k"
  using assms by (auto simp: LGBM_time_per_iter_def)

lemma LGBM_time_per_iter_positive:
  assumes "0 \<le> t1'" and "2 \<le> k"
  shows "0 < LGBM_time_per_iter t1' t2' k"
  using assms by (auto simp: LGBM_time_per_iter_def)

lemma LGBM_solve_trained_keeps:
  assumes "t1 self = Some a" and "time_per_iter self = Some tp" and "tp \<noteq> 0"
    and "0 < n_estimators self"
  shows "\<exists>t self'. LGBM_solve clock start_time n_iter True self rows budget = Inr (t, self')
           \<and> time_per_iter self' = Some tp"
  using assms
  by (auto simp: LGBM_solve_def LGBM_final_def BaseEstimator__fit_def read_clock_def Let_def
           split: option.splits)

lemma LGBM_fit_caches_time_per_iter:
  assumes "LGBM_probes self rows (Some b)"
    and "\<not> b \<le> clock (ticks self + 2) - clock (ticks self + 1)"
  shows "\<exists>t self'. LGBMEstimator_fit clock self rows (Some b) = Inr (t, self')
           \<and> time_per_iter self' =
               Some (LGBM_time_per_iter
                       (clock (ticks self + 2) - clock (ticks self + 1))
                       (clock (ticks self + 4) - clock (ticks self + 3))
                       (min (n_estimators self) 4))"
proof -
  have k: "2 \<le> min (n_estimators self) 4" "n_estimators self \<noteq> 1"
    using assms(1) by (simp_all add: LGBM_probes_def)
  note nz = LGBM_time_per_iter_nonzero [OF k(1)]
  show ?thesis
    using assms k nz
    by (auto simp: LGBMEstimator_fit_def read_clock_def BaseEstimator__fit_def Let_def
                   eval_nat_numeral
             intro!: LGBM_solve_trained_keeps)
qed

lemma LGBM_fit_fallback:
  assumes "LGBM_probes self rows (Some b)"
    and "t1' = clock (ticks self + 2) - clock (ticks self + 1)"
    and "t2' = clock (ticks self + 4) - clock (ticks self + 3)"
    and "\<not> b \<le> t1'" and "0 \<le> t1'" and "t2' \<le> t1'"
  shows "\<exists>t self'. LGBMEstimator_fit clock self rows (Some b) = Inr (t, self')
           \<and> time_per_iter self' = Some (if 0 < t1' then t1' else 1 / 1000)
           \<and> (\<exists>tpi. time_per_iter self' = Some tpi \<and> 0 < tpi)"
proof -
  from LGBM_fit_caches_time_per_iter [OF assms(1) assms(4) [unfolded assms(2)]]
  obtain t self' where
    r: "LGBMEstimator_fit clock self rows (Some b) = Inr (t, self')"
    and c: "time_per_iter self' =
              Some (LGBM_time_per_iter t1' t2' (min (n_estimators self) 4))"
    unfolding assms(2,3) by blast
  from LGBM_time_per_iter_fallback [OF assms(6,5)] c r show ?thesis by auto
qed

text \<open>
  C3. When the second calibration fit is not measurably slower than the first, the
  cached \<open>time_per_iter\<close> is to fall back to \<open>t1\<close> when positive and to 0.001 s
  otherwise, never zero or negative. \<^verbatim>\<open>LGBMEstimator.fit\<close> does so
  (\<open>LGBM_fit_fallback\<close> above, for a clock that does not run backwards). \<^verbatim>\<open>CatBoostEstimator.fit\<close> falls
  back to \<open>t1\<close> without the 0.001 s: on a clock too coarse to see either calibration
  fit (\<open>t1 = 0\<close>) it caches a \<open>time_per_iter\<close> of zero when the budget then ends the
  call, and otherwise divides by it in the Budget Solver and raises
  \<^verbatim>\<open>ZeroDivisionError\<close>.
\<close>

theorem CatBoost_time_per_iter_zero:
  "CatBoostEstimator_fit (stalled_clock 3 20) id (fresh_estimator 100) 1000 (Some 10) =
     Inr (20, \<lparr>n_estimators = 4, time_per_iter = Some 0, train_size = 1000, t1 = Some 0,
               t2 = None, smallmodel = Some 4, model = Some 4,
               fits = [(1, 1000), (4, 1000)], ticks = 5\<rparr>)
   \<and> CatBoostEstimator_fit (stalled_clock 4 20) id (fresh_estimator 100) 1000 (Some 10) =
     Inl ZeroDivisionError"
  by (simp add: fit_defs)

subsection \<open>Reuse of the cache\<close>









end
